theory Spec2Isabelle
  imports Complex_Main "HOL-Library.Multiset"
begin

section \<open>Values, errors and the process state\<close>

text \<open>
  The main process of the calorie tracker receives untyped values over IPC and reads
  untyped values back from disk with \<^verbatim>\<open>JSON.parse\<close>. They are modelled as a datatype
  of JavaScript values. Numbers are exact rationals and \<open>JNaN\<close> is the number NaN;
  infinities and floating-point rounding are outside the model. An object is an
  association list in property order with distinct keys.
\<close>

datatype jsval =
    JUndefined
  | JNull
  | JBool bool
  | JNum rat
  | JNaN
  | JStr string
  | JArr "jsval list"
  | JObj "(string \<times> jsval) list"

text \<open>Everything a handler can catch. \<open>DataPathNotSet\<close> is the \<^verbatim>\<open>Error\<close> thrown by
  \<^verbatim>\<open>ensureDataPath\<close>; \<open>ENOENT\<close> is what \<^verbatim>\<open>fs.unlink\<close> and \<^verbatim>\<open>fs.readFile\<close> reject with
  for a missing path; the others are thrown by the language and the libraries.\<close>

datatype js_error =
    DataPathNotSet
  | ENOENT string
  | TypeError
  | SyntaxError
  | MalformedUtf8
  | YAMLException

text \<open>The calls the handlers make on \<^verbatim>\<open>fs/promises\<close>, as a journal. \<open>Rename\<close> is part of the
  interface although no handler of the program issues it.\<close>

datatype fs_call =
    Mkdir string
  | Readdir string
  | ReadFile string
  | WriteFile string string
  | Unlink string
  | Rename string string

text \<open>
  The module-level variables \<^verbatim>\<open>dataPath\<close> and \<^verbatim>\<open>encryptionPassword\<close>, and the file system:
  \<open>files\<close> maps a full path to the file's content, in the order in which the operating
  system enumerates a directory. Directories are implicit (a recursive \<^verbatim>\<open>mkdir\<close> only
  shows in the journal), and \<^verbatim>\<open>path.join\<close> is concatenation with a separator: paths
  are taken to be normalised already.
\<close>

record state =
  dataPath :: "string option"
  encryptionPassword :: "string option"
  files :: "(string \<times> string) list"
  fs_calls :: "fs_call list"

definition truthy_str :: "string option \<Rightarrow> bool" where
  "truthy_str v = (case v of None \<Rightarrow> False | Some s \<Rightarrow> s \<noteq> [])"

definition path_join :: "string \<Rightarrow> string \<Rightarrow> string" where
  "path_join a b = a @ ''/'' @ b"

definition journal :: "fs_call \<Rightarrow> state \<Rightarrow> state" where
  "journal c s = s\<lparr>fs_calls := fs_calls s @ [c]\<rparr>"

definition fs_mkdir :: "string \<Rightarrow> state \<Rightarrow> state" where
  "fs_mkdir p s = journal (Mkdir p) s"

definition existsSync :: "state \<Rightarrow> string \<Rightarrow> bool" where
  "existsSync s p = (map_of (files s) p \<noteq> None)"


fun put_file :: "string \<Rightarrow> string \<Rightarrow> (string \<times> string) list \<Rightarrow> (string \<times> string) list" where
  "put_file p c [] = [(p, c)]"
| "put_file p c ((q, d) # fs) = (if q = p then (p, c) # fs else (q, d) # put_file p c fs)"

definition fs_writeFile :: "string \<Rightarrow> string \<Rightarrow> state \<Rightarrow> state" where
  "fs_writeFile p c s = journal (WriteFile p c) (s\<lparr>files := put_file p c (files s)\<rparr>)"

definition fs_unlink :: "string \<Rightarrow> state \<Rightarrow> (js_error + unit) \<times> state" where
  "fs_unlink p s =
     (if existsSync s p
      then (Inr (), journal (Unlink p) (s\<lparr>files := filter (\<lambda>(q, c). q \<noteq> p) (files s)\<rparr>))
      else (Inl (ENOENT p), journal (Unlink p) s))"

fun strip_prefix :: "string \<Rightarrow> string \<Rightarrow> string option" where
  "strip_prefix [] ys = Some ys"
| "strip_prefix (x # xs) [] = None"
| "strip_prefix (x # xs) (y # ys) = (if x = y then strip_prefix xs ys else None)"

definition dir_entries :: "string \<Rightarrow> (string \<times> string) list \<Rightarrow> string list" where
  "dir_entries d fs =
     concat (map (\<lambda>(p, c). case strip_prefix (d @ ''/'') p of
                               None \<Rightarrow> []
                             | Some n \<Rightarrow> if CHR ''/'' \<in> set n then [] else [n]) fs)"

definition fs_readdir :: "string \<Rightarrow> state \<Rightarrow> string list \<times> state" where
  "fs_readdir d s = (dir_entries d (files s), journal (Readdir d) s)"

subsection \<open>ensureDataPath\<close>

definition ensureDataPath :: "state \<Rightarrow> (js_error + string) \<times> state" where
  "ensureDataPath s =
     (if \<not> truthy_str (dataPath s) then (Inl DataPathNotSet, s)
      else let dp = the (dataPath s) in
        (Inr dp, fs_mkdir (path_join dp ''daily'') (fs_mkdir dp s)))"

section \<open>JavaScript operations the handlers rely on\<close>

definition truthy :: "jsval \<Rightarrow> bool" where
  "truthy v = (case v of
       JUndefined \<Rightarrow> False | JNull \<Rightarrow> False | JNaN \<Rightarrow> False
     | JBool b \<Rightarrow> b | JNum x \<Rightarrow> x \<noteq> 0 | JStr s \<Rightarrow> s \<noteq> []
     | JArr xs \<Rightarrow> True | JObj kvs \<Rightarrow> True)"

definition lookup :: "(string \<times> jsval) list \<Rightarrow> string \<Rightarrow> jsval" where
  "lookup kvs k = (case map_of kvs k of None \<Rightarrow> JUndefined | Some v \<Rightarrow> v)"

text \<open>Reading a property. On \<^verbatim>\<open>null\<close> and \<^verbatim>\<open>undefined\<close> it throws; on the other values that
  are not objects the properties the handlers ask for (never an index, never \<^verbatim>\<open>length\<close>)
  are \<^verbatim>\<open>undefined\<close>.\<close>

definition get_prop :: "jsval \<Rightarrow> string \<Rightarrow> js_error + jsval" where
  "get_prop v k = (case v of
       JObj kvs \<Rightarrow> Inr (lookup kvs k)
     | JUndefined \<Rightarrow> Inl TypeError
     | JNull \<Rightarrow> Inl TypeError
     | _ \<Rightarrow> Inr JUndefined)"

text \<open>The same read where the receiver is known to be an object.\<close>

definition field :: "jsval \<Rightarrow> string \<Rightarrow> jsval" where
  "field v k = (case v of JObj kvs \<Rightarrow> lookup kvs k | _ \<Rightarrow> JUndefined)"

fun set_prop :: "string \<Rightarrow> jsval \<Rightarrow> (string \<times> jsval) list \<Rightarrow> (string \<times> jsval) list" where
  "set_prop k v [] = [(k, v)]"
| "set_prop k v ((k', v') # kvs) =
     (if k' = k then (k, v) # kvs else (k', v') # set_prop k v kvs)"

definition digit_char :: "nat \<Rightarrow> char" where
  "digit_char d = char_of (48 + d)"

fun string_of_nat :: "nat \<Rightarrow> string" where
  "string_of_nat n =
     (if n < 10 then [digit_char n] else string_of_nat (n div 10) @ [digit_char (n mod 10)])"

declare string_of_nat.simps [simp del]

text \<open>The own enumerable properties an object spread \<^verbatim>\<open>{...v}\<close> copies.\<close>

definition spread :: "jsval \<Rightarrow> (string \<times> jsval) list" where
  "spread v = (case v of
       JObj kvs \<Rightarrow> kvs
     | JArr xs \<Rightarrow> map (\<lambda>(i, x). (string_of_nat i, x)) (enumerate 0 xs)
     | JStr s \<Rightarrow> map (\<lambda>(i, c). (string_of_nat i, JStr [c])) (enumerate 0 s)
     | _ \<Rightarrow> [])"

fun join :: "string \<Rightarrow> string list \<Rightarrow> string" where
  "join sep [] = []"
| "join sep [x] = x"
| "join sep (x # y # zs) = x @ sep @ join sep (y # zs)"

definition ends_with :: "string \<Rightarrow> string \<Rightarrow> bool" where
  "ends_with s suf = (length suf \<le> length s \<and> drop (length s - length suf) s = suf)"

fun replace_first :: "string \<Rightarrow> string \<Rightarrow> string \<Rightarrow> string" where
  "replace_first pat rep [] = (if pat = [] then rep else [])"
| "replace_first pat rep (c # cs) =
     (case strip_prefix pat (c # cs) of
        Some rest \<Rightarrow> rep @ rest
      | None \<Rightarrow> c # replace_first pat rep cs)"

fun str_includes :: "string \<Rightarrow> string \<Rightarrow> bool" where
  "str_includes [] needle = (needle = [])"
| "str_includes (c # cs) needle = (strip_prefix needle (c # cs) \<noteq> None \<or> str_includes cs needle)"

text \<open>\<^verbatim>\<open>toLowerCase\<close> and \<^verbatim>\<open>trim\<close> on the ASCII range; strings are byte strings here.\<close>

definition lower_char :: "char \<Rightarrow> char" where
  "lower_char c = (let n = (of_char c :: nat) in if 65 \<le> n \<and> n \<le> 90 then char_of (n + 32) else c)"

definition toLowerCase :: "string \<Rightarrow> string" where
  "toLowerCase s = map lower_char s"

definition is_space :: "char \<Rightarrow> bool" where
  "is_space c = (let n = (of_char c :: nat) in n = 32 \<or> (9 \<le> n \<and> n \<le> 13))"

definition trim :: "string \<Rightarrow> string" where
  "trim s = rev (dropWhile is_space (rev (dropWhile is_space s)))"

text \<open>Strings compare by code unit, lexicographically: \<open>str_le a b\<close> is \<^verbatim>\<open>a <= b\<close>.\<close>

fun str_le :: "string \<Rightarrow> string \<Rightarrow> bool" where
  "str_le [] b = True"
| "str_le (x # xs) [] = False"
| "str_le (x # xs) (y # ys) =
     ((of_char x :: nat) < of_char y \<or> (x = y \<and> str_le xs ys))"

section \<open>The libraries, as parameters\<close>

text \<open>An issue of a failed zod parse: where, and of which kind. The message text is the
  library's.\<close>

datatype seg = Key string | Idx nat

datatype issue_code = invalid_type | too_small | too_big | invalid_enum_value | invalid_string

datatype issue = Issue (issue_path: "seg list") (issue_code: issue_code)

text \<open>
  What the program imports and does not define: CryptoJS (\<open>AES_encrypt\<close> takes the
  salt the library draws at random as an argument; \<open>AES_decrypt_Utf8\<close> is
  \<^verbatim>\<open>AES.decrypt(..).toString(enc.Utf8)\<close>, which throws on bytes that are not UTF-8),
  \<^verbatim>\<open>JSON\<close>, gray-matter, \<^verbatim>\<open>new Date(v).getTime()\<close> (\<open>None\<close> is NaN), the conversions
  between numbers and strings, and the wording of zod's messages.
\<close>

record libs =
  AES_encrypt :: "nat \<Rightarrow> string \<Rightarrow> string \<Rightarrow> string"
  AES_decrypt_Utf8 :: "string \<Rightarrow> string \<Rightarrow> js_error + string"
  JSON_parse :: "string \<Rightarrow> js_error + jsval"
  JSON_stringify :: "jsval \<Rightarrow> string"
  matter :: "string \<Rightarrow> js_error + (jsval \<times> string)"
  matter_stringify :: "string \<Rightarrow> jsval \<Rightarrow> string"
  Date_getTime :: "jsval \<Rightarrow> int option"
  Number_toString :: "rat \<Rightarrow> string"
  String_toNumber :: "string \<Rightarrow> rat option"
  zod_message :: "issue \<Rightarrow> string"

definition encrypt :: "libs \<Rightarrow> nat \<Rightarrow> string \<Rightarrow> string \<Rightarrow> string" where
  "encrypt L salt text password = AES_encrypt L salt text password"

definition decrypt :: "libs \<Rightarrow> string \<Rightarrow> string \<Rightarrow> js_error + string" where
  "decrypt L encryptedText password = AES_decrypt_Utf8 L encryptedText password"

subsection \<open>Conversions\<close>

fun js_to_string :: "libs \<Rightarrow> jsval \<Rightarrow> string" where
  "js_to_string L JUndefined = ''undefined''"
| "js_to_string L JNull = ''null''"
| "js_to_string L (JBool b) = (if b then ''true'' else ''false'')"
| "js_to_string L (JNum x) = Number_toString L x"
| "js_to_string L JNaN = ''NaN''"
| "js_to_string L (JStr s) = s"
| "js_to_string L (JArr xs) =
     join '','' (map (\<lambda>x. if x = JNull \<or> x = JUndefined then [] else js_to_string L x) xs)"
| "js_to_string L (JObj kvs) = ''[object Object]''"

definition to_number :: "jsval \<Rightarrow> rat option" where
  "to_number v = (case v of
       JNull \<Rightarrow> Some 0 | JBool b \<Rightarrow> Some (if b then 1 else 0) | JNum x \<Rightarrow> Some x
     | _ \<Rightarrow> None)"

definition stringish :: "jsval \<Rightarrow> bool" where
  "stringish v = (case v of JStr s \<Rightarrow> True | JArr xs \<Rightarrow> True | JObj kvs \<Rightarrow> True | _ \<Rightarrow> False)"

text \<open>The operator \<^verbatim>\<open>+\<close>: concatenation as soon as one operand is (or converts to) a
  string, addition of numbers otherwise.\<close>

definition js_add :: "libs \<Rightarrow> jsval \<Rightarrow> jsval \<Rightarrow> jsval" where
  "js_add L a b =
     (if stringish a \<or> stringish b then JStr (js_to_string L a @ js_to_string L b)
      else (case (to_number a, to_number b) of
              (Some x, Some y) \<Rightarrow> JNum (x + y)
            | _ \<Rightarrow> JNaN))"

text \<open>\<^verbatim>\<open>a >= b\<close> and \<^verbatim>\<open>a <= b\<close> for a string \<open>b\<close>.\<close>

definition js_ge :: "libs \<Rightarrow> jsval \<Rightarrow> string \<Rightarrow> bool" where
  "js_ge L a b =
     (if stringish a then str_le b (js_to_string L a)
      else (case (to_number a, String_toNumber L b) of
              (Some x, Some y) \<Rightarrow> y \<le> x
            | _ \<Rightarrow> False))"

definition js_le :: "libs \<Rightarrow> jsval \<Rightarrow> string \<Rightarrow> bool" where
  "js_le L a b =
     (if stringish a then str_le (js_to_string L a) b
      else (case (to_number a, String_toNumber L b) of
              (Some x, Some y) \<Rightarrow> x \<le> y
            | _ \<Rightarrow> False))"

subsection \<open>Array.prototype.sort\<close>

text \<open>
  The sort is stable, and a comparator result that is NaN counts as zero. For a
  comparator that orders the elements consistently every stable sort returns the
  list computed here by insertion. With an inconsistent comparator the language
  leaves the order to the implementation, and this function is one of them.
\<close>

definition positive :: "int option \<Rightarrow> bool" where
  "positive r = (case r of None \<Rightarrow> False | Some d \<Rightarrow> 0 < d)"

fun insert_sorted :: "('a \<Rightarrow> 'a \<Rightarrow> int option) \<Rightarrow> 'a \<Rightarrow> 'a list \<Rightarrow> 'a list" where
  "insert_sorted cmp x [] = [x]"
| "insert_sorted cmp x (y # ys) =
     (if positive (cmp x y) then y # insert_sorted cmp x ys else x # y # ys)"

definition js_sort :: "('a \<Rightarrow> 'a \<Rightarrow> int option) \<Rightarrow> 'a list \<Rightarrow> 'a list" where
  "js_sort cmp xs = foldr (insert_sorted cmp) xs []"

section \<open>Validation\<close>

subsection \<open>The zod combinators the schemas are built from\<close>

text \<open>
  A schema, run at a path on a value, gives the issues it found and the parsed output
  (which the caller sees only when there is no issue at all). A failed type check is
  the only issue of its value; the refinements of a string or number are all checked;
  an object checks every key of its shape and an array every element, so the issues of
  all fields are collected. An object schema drops the keys that are not in its shape.
\<close>

type_synonym schema = "seg list \<Rightarrow> jsval \<Rightarrow> issue list \<times> jsval"

datatype re_tok = Digit | Lit char

definition is_digit :: "char \<Rightarrow> bool" where
  "is_digit c = (let n = (of_char c :: nat) in 48 \<le> n \<and> n \<le> 57)"

text \<open>An anchored pattern \<^verbatim>\<open>/^...$/\<close> made of \<^verbatim>\<open>\d\<close> and literal characters.\<close>

fun re_match :: "re_tok list \<Rightarrow> string \<Rightarrow> bool" where
  "re_match [] s = (s = [])"
| "re_match (t # ts) [] = False"
| "re_match (Digit # ts) (c # cs) = (is_digit c \<and> re_match ts cs)"
| "re_match (Lit l # ts) (c # cs) = (c = l \<and> re_match ts cs)"

datatype string_check = MinLength nat | Regex "re_tok list"

datatype number_check = Min rat | Max rat

definition string_issue :: "seg list \<Rightarrow> string \<Rightarrow> string_check \<Rightarrow> issue list" where
  "string_issue p s c = (case c of
       MinLength n \<Rightarrow> if length s < n then [Issue p too_small] else []
     | Regex r \<Rightarrow> if re_match r s then [] else [Issue p invalid_string])"

definition number_issue :: "seg list \<Rightarrow> rat \<Rightarrow> number_check \<Rightarrow> issue list" where
  "number_issue p x c = (case c of
       Min lo \<Rightarrow> if x < lo then [Issue p too_small] else []
     | Max hi \<Rightarrow> if hi < x then [Issue p too_big] else [])"

definition z_string :: "string_check list \<Rightarrow> schema" where
  "z_string checks p v = (case v of
       JStr s \<Rightarrow> (concat (map (string_issue p s) checks), v)
     | _ \<Rightarrow> ([Issue p invalid_type], v))"

definition z_number :: "number_check list \<Rightarrow> schema" where
  "z_number checks p v = (case v of
       JNum x \<Rightarrow> (concat (map (number_issue p x) checks), v)
     | _ \<Rightarrow> ([Issue p invalid_type], v))"

definition z_enum :: "string list \<Rightarrow> schema" where
  "z_enum values p v = (case v of
       JStr s \<Rightarrow> (if s \<in> set values then [] else [Issue p invalid_enum_value], v)
     | _ \<Rightarrow> ([Issue p invalid_type], v))"

definition z_optional :: "schema \<Rightarrow> schema" where
  "z_optional sch p v = (if v = JUndefined then ([], JUndefined) else sch p v)"

definition z_array :: "schema \<Rightarrow> schema" where
  "z_array el p v = (case v of
       JArr xs \<Rightarrow>
         (let rs = map (\<lambda>(i, x). el (p @ [Idx i]) x) (enumerate 0 xs)
          in (concat (map fst rs), JArr (map snd rs)))
     | _ \<Rightarrow> ([Issue p invalid_type], v))"

text \<open>One key of an object's shape: its issues, and its entry of the output. The key is
  set in the output when the input has it or when its parsed value is defined.\<close>

definition object_key :: "seg list \<Rightarrow> (string \<times> jsval) list \<Rightarrow> string \<times> schema
    \<Rightarrow> issue list \<times> (string \<times> jsval) list" where
  "object_key p kvs ks =
     (let k = fst ks;
          r = snd ks (p @ [Key k]) (lookup kvs k)
      in (fst r, if map_of kvs k \<noteq> None \<or> snd r \<noteq> JUndefined then [(k, snd r)] else []))"

definition z_object :: "(string \<times> schema) list \<Rightarrow> schema" where
  "z_object shape p v = (case v of
       JObj kvs \<Rightarrow>
         (let rs = map (object_key p kvs) shape
          in (concat (map fst rs), JObj (concat (map snd rs))))
     | _ \<Rightarrow> ([Issue p invalid_type], v))"

subsection \<open>The schemas\<close>

definition re_date :: "re_tok list" where
  "re_date = [Digit, Digit, Digit, Digit, Lit CHR ''-'', Digit, Digit, Lit CHR ''-'', Digit, Digit]"

definition re_time :: "re_tok list" where
  "re_time = [Digit, Digit, Lit CHR '':'', Digit, Digit]"

definition FoodItemSchema :: schema where
  "FoodItemSchema = z_object
     [(''name'', z_string [MinLength 1]),
      (''calories'', z_number [Min 0]),
      (''protein'', z_number [Min 0]),
      (''carbs'', z_number [Min 0]),
      (''fats'', z_number [Min 0]),
      (''servingSize'', z_optional (z_string []))]"

definition MealEntrySchema :: schema where
  "MealEntrySchema = z_object
     [(''id'', z_string []),
      (''mealType'', z_enum [''breakfast'', ''lunch'', ''dinner'', ''snack'']),
      (''time'', z_string [Regex re_time]),
      (''foods'', z_array FoodItemSchema),
      (''notes'', z_optional (z_string []))]"

definition ExerciseEntrySchema :: schema where
  "ExerciseEntrySchema = z_object
     [(''id'', z_string []),
      (''type'', z_enum [''2G'', ''3G'', ''Tread 50'', ''Weight 50'', ''Other'']),
      (''caloriesBurned'', z_number [Min 0]),
      (''duration'', z_optional (z_number [Min 0])),
      (''notes'', z_optional (z_string []))]"

definition WaterSchema :: schema where
  "WaterSchema = z_object
     [(''glasses'', z_number [Min 0, Max 50]),
      (''ounces'', z_number [Min 0, Max 400])]"

definition DailyEntrySchema :: schema where
  "DailyEntrySchema = z_object
     [(''id'', z_optional (z_string [])),
      (''date'', z_string [Regex re_date]),
      (''meals'', z_array MealEntrySchema),
      (''water'', WaterSchema),
      (''exercise'', z_optional ExerciseEntrySchema),
      (''weight'', z_optional (z_number [Min 0, Max 1000])),
      (''notes'', z_optional (z_string [])),
      (''tags'', z_array (z_string []))]"

definition SavedFoodSchema :: schema where
  "SavedFoodSchema = z_object
     [(''id'', z_string []),
      (''name'', z_string [MinLength 1]),
      (''calories'', z_number [Min 0]),
      (''protein'', z_number [Min 0]),
      (''carbs'', z_number [Min 0]),
      (''fats'', z_number [Min 0]),
      (''servingSize'', z_optional (z_string [])),
      (''category'', z_optional (z_string [])),
      (''useCount'', z_number [Min 0])]"

definition UserGoalsSchema :: schema where
  "UserGoalsSchema = z_object
     [(''dailyCalories'', z_number [Min 500, Max 10000]),
      (''protein'', z_number [Min 0, Max 500]),
      (''carbs'', z_number [Min 0, Max 1000]),
      (''fats'', z_number [Min 0, Max 500]),
      (''waterGlasses'', z_number [Min 0, Max 50]),
      (''targetWeight'', z_optional (z_number [Min 0, Max 1000]))]"

definition WeightEntrySchema :: schema where
  "WeightEntrySchema = z_object
     [(''date'', z_string [Regex re_date]),
      (''weight'', z_number [Min 0, Max 1000]),
      (''notes'', z_optional (z_string []))]"

definition AppDataSchema :: schema where
  "AppDataSchema = z_object
     [(''savedFoods'', z_array SavedFoodSchema),
      (''recentMeals'', z_array MealEntrySchema),
      (''goals'', UserGoalsSchema),
      (''weightHistory'', z_array WeightEntrySchema)]"

subsection \<open>validateData\<close>

definition seg_text :: "seg \<Rightarrow> string" where
  "seg_text g = (case g of Key k \<Rightarrow> k | Idx i \<Rightarrow> string_of_nat i)"

definition issue_text :: "libs \<Rightarrow> issue \<Rightarrow> string" where
  "issue_text L i = join ''.'' (map seg_text (issue_path i)) @ '': '' @ zod_message L i"

definition validateData :: "libs \<Rightarrow> schema \<Rightarrow> jsval \<Rightarrow> string + jsval" where
  "validateData L sch data =
     (case sch [] data of
        ([], validated) \<Rightarrow> Inr validated
      | (i # is, validated) \<Rightarrow>
          Inl (''Validation failed: '' @ join '', '' (map (issue_text L) (i # is))))"

section \<open>Saving\<close>

text \<open>What a handler that answers \<^verbatim>\<open>{ success, error }\<close> reports on failure: the text of the
  validation, or \<^verbatim>\<open>String(error)\<close> of what it caught.\<close>

datatype failure = Validation string | Caught js_error

text \<open>Elements of a value that validation has shown to be an array.\<close>

definition elems :: "jsval \<Rightarrow> jsval list" where
  "elems v = (case v of JArr xs \<Rightarrow> xs | _ \<Rightarrow> [])"

definition totalCalories :: "libs \<Rightarrow> jsval \<Rightarrow> jsval" where
  "totalCalories L validatedEntry =
     foldl (\<lambda>sum meal.
              js_add L sum
                (foldl (\<lambda>mSum food. js_add L mSum (field food ''calories'')) (JNum 0)
                   (elems (field meal ''foods''))))
       (JNum 0) (elems (field validatedEntry ''meals''))"

text \<open>The JSON text of a validated value, encrypted when a session password is set: the
  \<^verbatim>\<open>content\<close> of both save handlers.\<close>

definition stored_json :: "libs \<Rightarrow> string option \<Rightarrow> nat \<Rightarrow> jsval \<Rightarrow> string" where
  "stored_json L pw salt validated =
     (let contentJson = JSON_stringify L validated
      in if truthy_str pw then encrypt L salt contentJson (the pw) else contentJson)"

definition entry_frontmatter :: "libs \<Rightarrow> string option \<Rightarrow> jsval \<Rightarrow> jsval" where
  "entry_frontmatter L pw validatedEntry = JObj
     [(''date'', field validatedEntry ''date''),
      (''totalCalories'', totalCalories L validatedEntry),
      (''encrypted'', JBool (truthy_str pw))]"

definition save_daily_entry :: "libs \<Rightarrow> state \<Rightarrow> nat \<Rightarrow> jsval \<Rightarrow> (failure + jsval) \<times> state" where
  "save_daily_entry L s salt entry =
     (case ensureDataPath s of
        (Inl e, s1) \<Rightarrow> (Inl (Caught e), s1)
      | (Inr dp, s1) \<Rightarrow>
          (case validateData L DailyEntrySchema entry of
             Inl msg \<Rightarrow> (Inl (Validation msg), s1)
           | Inr validatedEntry \<Rightarrow>
               let fileName = js_to_string L (field validatedEntry ''date'') @ ''.md'';
                   dailyPath = path_join dp ''daily'';
                   filePath = path_join dailyPath fileName;
                   content = stored_json L (encryptionPassword s1) salt validatedEntry;
                   frontmatter = entry_frontmatter L (encryptionPassword s1) validatedEntry;
                   fileContent = matter_stringify L content frontmatter
               in (Inr (field validatedEntry ''date''), fs_writeFile filePath fileContent s1)))"

definition save_app_data :: "libs \<Rightarrow> state \<Rightarrow> nat \<Rightarrow> jsval \<Rightarrow> (failure + unit) \<times> state" where
  "save_app_data L s salt data =
     (case ensureDataPath s of
        (Inl e, s1) \<Rightarrow> (Inl (Caught e), s1)
      | (Inr dp, s1) \<Rightarrow>
          (case validateData L AppDataSchema data of
             Inl msg \<Rightarrow> (Inl (Validation msg), s1)
           | Inr validated \<Rightarrow>
               let appDataPath = path_join dp ''app-data.json'';
                   content = stored_json L (encryptionPassword s1) salt validated
               in (Inr (), fs_writeFile appDataPath content s1)))"

section \<open>Verifying a password\<close>


section \<open>Reading the daily directory\<close>

text \<open>
  The three reading handlers (get-daily-entries, search-entries, export-data) contain
  the same code for listing the directory and decoding every \<^verbatim>\<open>.md\<close> file; it is
  modelled once. \<open>decode_entry\<close> is the body of the callback given to \<^verbatim>\<open>map\<close>.
\<close>

definition unable_to_decrypt :: string where
  "unable_to_decrypt = ''[Unable to decrypt entry]''"

definition entry_content :: "libs \<Rightarrow> string option \<Rightarrow> string \<Rightarrow> string" where
  "entry_content L pw content =
     (if truthy_str pw
      then (case decrypt L content (the pw) of
              Inl e \<Rightarrow> unable_to_decrypt
            | Inr t \<Rightarrow> t)
      else content)"

text \<open>\<^verbatim>\<open>data.date || entry.date\<close>: the right operand is read only when the left one is
  falsy.\<close>

definition date_of :: "jsval \<Rightarrow> jsval \<Rightarrow> js_error + jsval" where
  "date_of data entry =
     (case get_prop data ''date'' of
        Inl e \<Rightarrow> Inl e
      | Inr d \<Rightarrow> if truthy d then Inr d else get_prop entry ''date'')"

definition decode_entry :: "libs \<Rightarrow> string option \<Rightarrow> string \<Rightarrow> string \<Rightarrow> js_error + jsval" where
  "decode_entry L pw file fileContent =
     (case matter L fileContent of
        Inl e \<Rightarrow> Inl e
      | Inr (data, content) \<Rightarrow>
          (case JSON_parse L (entry_content L pw content) of
             Inl e \<Rightarrow> Inl e
           | Inr entry \<Rightarrow>
               (case date_of data entry of
                  Inl e \<Rightarrow> Inl e
                | Inr d \<Rightarrow>
                    Inr (JObj (set_prop ''date'' d
                           (set_prop ''id'' (JStr (replace_first ''.md'' [] file))
                              (spread entry)))))))"

text \<open>\<^verbatim>\<open>Promise.all\<close>: the results in order, or a rejection as soon as one element rejects.\<close>

fun all_or_error :: "('e + 'a) list \<Rightarrow> 'e + 'a list" where
  "all_or_error [] = Inr []"
| "all_or_error (Inl e # rs) = Inl e"
| "all_or_error (Inr x # rs) = (case all_or_error rs of Inl e \<Rightarrow> Inl e | Inr xs \<Rightarrow> Inr (x # xs))"

definition md_files :: "state \<Rightarrow> string \<Rightarrow> string list" where
  "md_files s dailyPath = filter (\<lambda>f. ends_with f ''.md'') (dir_entries dailyPath (files s))"

definition read_file_entry :: "libs \<Rightarrow> state \<Rightarrow> string \<Rightarrow> string \<Rightarrow> js_error + jsval" where
  "read_file_entry L s dailyPath file =
     (case map_of (files s) (path_join dailyPath file) of
        None \<Rightarrow> Inl (ENOENT (path_join dailyPath file))
      | Some fileContent \<Rightarrow> decode_entry L (encryptionPassword s) file fileContent)"

definition stored_records :: "libs \<Rightarrow> state \<Rightarrow> string \<Rightarrow> js_error + jsval list" where
  "stored_records L s dp =
     all_or_error (map (read_file_entry L s (path_join dp ''daily''))
                       (md_files s (path_join dp ''daily'')))"

definition read_entries :: "libs \<Rightarrow> state \<Rightarrow> string \<Rightarrow> (js_error + jsval list) \<times> state" where
  "read_entries L s dp =
     (let dailyPath = path_join dp ''daily''
      in (stored_records L s dp,
          s\<lparr>fs_calls := fs_calls s @ Readdir dailyPath #
                map (\<lambda>file. ReadFile (path_join dailyPath file)) (md_files s dailyPath)\<rparr>))"

section \<open>Listing\<close>

definition date_desc :: "libs \<Rightarrow> jsval \<Rightarrow> jsval \<Rightarrow> int option" where
  "date_desc L a b =
     (case (Date_getTime L (field b ''date''), Date_getTime L (field a ''date'')) of
        (Some tb, Some ta) \<Rightarrow> Some (tb - ta)
      | _ \<Rightarrow> None)"

definition filter_range :: "libs \<Rightarrow> string option \<Rightarrow> string option \<Rightarrow> jsval list \<Rightarrow> jsval list" where
  "filter_range L startDate endDate entries =
     (let filtered = (if truthy_str startDate
                      then filter (\<lambda>e. js_ge L (field e ''date'') (the startDate)) entries
                      else entries)
      in if truthy_str endDate
         then filter (\<lambda>e. js_le L (field e ''date'') (the endDate)) filtered
         else filtered)"

definition get_daily_entries :: "libs \<Rightarrow> state \<Rightarrow> string option \<Rightarrow> string option
    \<Rightarrow> jsval list \<times> state" where
  "get_daily_entries L s startDate endDate =
     (case ensureDataPath s of
        (Inl e, s1) \<Rightarrow> ([], s1)
      | (Inr dp, s1) \<Rightarrow>
          (case read_entries L s1 dp of
             (Inl e, s2) \<Rightarrow> ([], s2)
           | (Inr entries, s2) \<Rightarrow>
               (js_sort (date_desc L) (filter_range L startDate endDate entries), s2)))"

section \<open>Deleting a daily entry\<close>

definition delete_daily_entry :: "state \<Rightarrow> string \<Rightarrow> (failure + unit) \<times> state" where
  "delete_daily_entry s entryId =
     (case ensureDataPath s of
        (Inl e, s1) \<Rightarrow> (Inl (Caught e), s1)
      | (Inr dp, s1) \<Rightarrow>
          let fileName = entryId @ ''.md'';
              dailyPath = path_join dp ''daily'';
              filePath = path_join dailyPath fileName
          in (case fs_unlink filePath s1 of
                (Inl e, s2) \<Rightarrow> (Inl (Caught e), s2)
              | (Inr u, s2) \<Rightarrow> (Inr (), s2)))"

section \<open>Searching\<close>

fun some_err :: "('a \<Rightarrow> js_error + bool) \<Rightarrow> 'a list \<Rightarrow> js_error + bool" where
  "some_err f [] = Inr False"
| "some_err f (x # xs) =
     (case f x of Inl e \<Rightarrow> Inl e | Inr b \<Rightarrow> if b then Inr True else some_err f xs)"

fun filter_err :: "('a \<Rightarrow> js_error + bool) \<Rightarrow> 'a list \<Rightarrow> js_error + 'a list" where
  "filter_err f [] = Inr []"
| "filter_err f (x # xs) =
     (case f x of
        Inl e \<Rightarrow> Inl e
      | Inr b \<Rightarrow> (case filter_err f xs of
                    Inl e \<Rightarrow> Inl e
                  | Inr ys \<Rightarrow> Inr (if b then x # ys else ys)))"

text \<open>\<^verbatim>\<open>entry.notes?.toLowerCase().includes(lowerQuery)\<close>, as the condition it is used for.\<close>

definition notes_match :: "string \<Rightarrow> jsval \<Rightarrow> js_error + bool" where
  "notes_match lowerQuery notes = (case notes of
       JUndefined \<Rightarrow> Inr False
     | JNull \<Rightarrow> Inr False
     | JStr n \<Rightarrow> Inr (str_includes (toLowerCase n) lowerQuery)
     | _ \<Rightarrow> Inl TypeError)"

definition food_match :: "string \<Rightarrow> jsval \<Rightarrow> js_error + bool" where
  "food_match lowerQuery food =
     (case get_prop food ''name'' of
        Inl e \<Rightarrow> Inl e
      | Inr (JStr n) \<Rightarrow> Inr (str_includes (toLowerCase n) lowerQuery)
      | Inr _ \<Rightarrow> Inl TypeError)"

definition meal_match :: "string \<Rightarrow> jsval \<Rightarrow> js_error + bool" where
  "meal_match lowerQuery meal =
     (case get_prop meal ''foods'' of
        Inl e \<Rightarrow> Inl e
      | Inr (JArr foods) \<Rightarrow> some_err (food_match lowerQuery) foods
      | Inr _ \<Rightarrow> Inl TypeError)"

definition text_match :: "string \<Rightarrow> jsval \<Rightarrow> js_error + bool" where
  "text_match lowerQuery entry =
     (case notes_match lowerQuery (field entry ''notes'') of
        Inl e \<Rightarrow> Inl e
      | Inr b \<Rightarrow>
          if b then Inr True
          else (case field entry ''meals'' of
                  JArr meals \<Rightarrow> some_err (meal_match lowerQuery) meals
                | _ \<Rightarrow> Inl TypeError))"

text \<open>\<^verbatim>\<open>tags.some(tag => entry.tags.includes(tag))\<close> for a non-empty \<open>tags\<close>.\<close>

definition tag_match :: "string list \<Rightarrow> jsval \<Rightarrow> js_error + bool" where
  "tag_match tags entry = (case field entry ''tags'' of
       JArr ts \<Rightarrow> Inr (list_ex (\<lambda>tag. JStr tag \<in> set ts) tags)
     | JStr t \<Rightarrow> Inr (list_ex (\<lambda>tag. str_includes t tag) tags)
     | _ \<Rightarrow> Inl TypeError)"

definition search_entries :: "libs \<Rightarrow> state \<Rightarrow> string \<Rightarrow> string list \<Rightarrow> jsval list \<times> state" where
  "search_entries L s query tags =
     (case ensureDataPath s of
        (Inl e, s1) \<Rightarrow> ([], s1)
      | (Inr dp, s1) \<Rightarrow>
          (case read_entries L s1 dp of
             (Inl e, s2) \<Rightarrow> ([], s2)
           | (Inr allEntries, s2) \<Rightarrow>
               (case (if query \<noteq> [] \<and> trim query \<noteq> []
                      then filter_err (text_match (toLowerCase query)) allEntries
                      else Inr allEntries) of
                  Inl e \<Rightarrow> ([], s2)
                | Inr filtered \<Rightarrow>
                    (case (if tags \<noteq> []
                           then filter_err (tag_match tags) filtered
                           else Inr filtered) of
                       Inl e \<Rightarrow> ([], s2)
                     | Inr filtered' \<Rightarrow> (filtered', s2)))))"

section \<open>Exporting\<close>

datatype export_format = Csv | Json

fun fold_err :: "('a \<Rightarrow> 'b \<Rightarrow> js_error + 'b) \<Rightarrow> 'a list \<Rightarrow> 'b \<Rightarrow> js_error + 'b" where
  "fold_err f [] acc = Inr acc"
| "fold_err f (x # xs) acc = (case f x acc of Inl e \<Rightarrow> Inl e | Inr acc' \<Rightarrow> fold_err f xs acc')"

record totals =
  t_calories :: jsval
  t_protein :: jsval
  t_carbs :: jsval
  t_fats :: jsval

definition food_totals :: "libs \<Rightarrow> jsval \<Rightarrow> totals \<Rightarrow> js_error + totals" where
  "food_totals L food acc =
     (case (get_prop food ''calories'', get_prop food ''protein'',
            get_prop food ''carbs'', get_prop food ''fats'') of
        (Inr c, Inr p, Inr cb, Inr f) \<Rightarrow>
          Inr \<lparr>t_calories = js_add L (t_calories acc) c,
               t_protein = js_add L (t_protein acc) p,
               t_carbs = js_add L (t_carbs acc) cb,
               t_fats = js_add L (t_fats acc) f\<rparr>
      | _ \<Rightarrow> Inl TypeError)"

definition meal_totals :: "libs \<Rightarrow> jsval \<Rightarrow> totals \<Rightarrow> js_error + totals" where
  "meal_totals L meal acc =
     (case get_prop meal ''foods'' of
        Inl e \<Rightarrow> Inl e
      | Inr (JArr foods) \<Rightarrow> fold_err (food_totals L) foods acc
      | Inr _ \<Rightarrow> Inl TypeError)"

definition entry_totals :: "libs \<Rightarrow> jsval \<Rightarrow> js_error + totals" where
  "entry_totals L entry = (case field entry ''meals'' of
       JArr meals \<Rightarrow>
         fold_err (meal_totals L) meals
           \<lparr>t_calories = JNum 0, t_protein = JNum 0, t_carbs = JNum 0, t_fats = JNum 0\<rparr>
     | _ \<Rightarrow> Inl TypeError)"

definition newline :: string where
  "newline = [CHR 0x0A]"

definition csv_header :: string where
  "csv_header =
     ''Date,Total Calories,Protein,Carbs,Fats,Exercise Calories,Weight,Water Glasses'' @ newline"

text \<open>\<^verbatim>\<open>entry.exercise?.caloriesBurned || 0\<close> and \<^verbatim>\<open>entry.weight || ''\<close>.\<close>

definition exercise_cell :: "jsval \<Rightarrow> jsval" where
  "exercise_cell entry =
     (let ex = field entry ''exercise'';
          burned = (if ex = JUndefined \<or> ex = JNull then JUndefined
                    else field ex ''caloriesBurned'')
      in if truthy burned then burned else JNum 0)"

definition weight_cell :: "jsval \<Rightarrow> jsval" where
  "weight_cell entry =
     (let w = field entry ''weight'' in if truthy w then w else JStr [])"

definition csv_row :: "libs \<Rightarrow> jsval \<Rightarrow> js_error + string" where
  "csv_row L entry =
     (case entry_totals L entry of
        Inl e \<Rightarrow> Inl e
      | Inr t \<Rightarrow>
          (case get_prop (field entry ''water'') ''glasses'' of
             Inl e \<Rightarrow> Inl e
           | Inr glasses \<Rightarrow>
               Inr (js_to_string L (field entry ''date'') @ '','' @
                    js_to_string L (t_calories t) @ '','' @
                    js_to_string L (t_protein t) @ '','' @
                    js_to_string L (t_carbs t) @ '','' @
                    js_to_string L (t_fats t) @ '','' @
                    js_to_string L (exercise_cell entry) @ '','' @
                    js_to_string L (weight_cell entry) @ '','' @
                    js_to_string L glasses @ newline)))"

definition csv_of :: "libs \<Rightarrow> jsval list \<Rightarrow> js_error + string" where
  "csv_of L entries =
     fold_err (\<lambda>entry csv. case csv_row L entry of Inl e \<Rightarrow> Inl e | Inr r \<Rightarrow> Inr (csv @ r))
       entries csv_header"

text \<open>\<open>chosen\<close> is the path the save dialog returned, \<open>None\<close> when it was cancelled.\<close>

definition export_data :: "libs \<Rightarrow> state \<Rightarrow> export_format \<Rightarrow> string \<Rightarrow> string \<Rightarrow> string option
    \<Rightarrow> bool \<times> state" where
  "export_data L s fmt startDate endDate chosen =
     (if \<not> truthy_str chosen then (False, s)
      else
        (case ensureDataPath s of
           (Inl e, s1) \<Rightarrow> (False, s1)
         | (Inr dp, s1) \<Rightarrow>
             (case read_entries L s1 dp of
                (Inl e, s2) \<Rightarrow> (False, s2)
              | (Inr allEntries, s2) \<Rightarrow>
                  let entries = js_sort (date_desc L)
                                  (filter_range L (Some startDate) (Some endDate) allEntries)
                  in (case fmt of
                        Json \<Rightarrow>
                          (True, fs_writeFile (the chosen) (JSON_stringify L (JArr entries)) s2)
                      | Csv \<Rightarrow>
                          (case csv_of L entries of
                             Inl e \<Rightarrow> (False, s2)
                           | Inr csv \<Rightarrow> (True, fs_writeFile (the chosen) csv s2))))))"

section \<open>A small instance of the libraries, and sample data\<close>

text \<open>
  The theorems below hold for every instance of \<open>libs\<close> that meets the assumptions they
  name. \<open>sample_libs\<close> is one such instance, small enough to run the handlers on the
  sample stores: a cipher that seals the text behind the password, and JSON and front
  matter given by tables over the sample values.
\<close>

fun seal :: "string \<Rightarrow> string \<Rightarrow> string" where
  "seal [] t = CHR ''.'' # t"
| "seal (c # p) t = CHR ''+'' # c # seal p t"

fun unseal :: "string \<Rightarrow> string \<Rightarrow> string option" where
  "unseal [] ct = (case ct of [] \<Rightarrow> None | c # rest \<Rightarrow> if c = CHR ''.'' then Some rest else None)"
| "unseal (x # q) ct =
     (case ct of
        a # b # rest \<Rightarrow> if a = CHR ''+'' \<and> b = x then unseal q rest else None
      | _ \<Rightarrow> None)"

definition chomp :: "string \<Rightarrow> string" where
  "chomp t = (if t \<noteq> [] \<and> last t = CHR 0x0A then butlast t else t)"

definition sample_decrypt :: "string \<Rightarrow> string \<Rightarrow> js_error + string" where
  "sample_decrypt ct q = (case unseal q (chomp ct) of None \<Rightarrow> Inl MalformedUtf8 | Some t \<Rightarrow> Inr t)"

definition yogurt :: jsval where
  "yogurt = JObj [(''name'', JStr ''Greek Yogurt''), (''calories'', JNum 150),
     (''protein'', JNum 15), (''carbs'', JNum 8), (''fats'', JNum 4)]"

definition toast :: jsval where
  "toast = JObj [(''name'', JStr ''Toast''), (''calories'', JNum 90),
     (''protein'', JNum 3), (''carbs'', JNum 17), (''fats'', JNum 1)]"

definition breakfast :: jsval where
  "breakfast = JObj [(''id'', JStr ''m1''), (''mealType'', JStr ''breakfast''),
     (''time'', JStr ''08:30''), (''foods'', JArr [yogurt, toast])]"

definition entry_jan10 :: jsval where
  "entry_jan10 = JObj [(''date'', JStr ''2026-01-10''), (''meals'', JArr [breakfast]),
     (''water'', JObj [(''glasses'', JNum 3), (''ounces'', JNum 24)]),
     (''tags'', JArr [JStr ''cheat-day''])]"

definition entry_jan11 :: jsval where
  "entry_jan11 = JObj [(''date'', JStr ''2026-01-11''), (''meals'', JArr []),
     (''water'', JObj [(''glasses'', JNum 8), (''ounces'', JNum 64)]),
     (''weight'', JNum 0), (''tags'', JArr [])]"

definition entry_jan12 :: jsval where
  "entry_jan12 = JObj [(''id'', JStr ''other''), (''date'', JStr ''2026-01-12''),
     (''meals'', JArr []),
     (''water'', JObj [(''glasses'', JNum 2), (''ounces'', JNum 16)]),
     (''exercise'', JObj [(''id'', JStr ''x1''), (''type'', JStr ''3G''),
        (''caloriesBurned'', JNum 400)]),
     (''weight'', JNum 181), (''notes'', JStr ''Leg day''), (''tags'', JArr [])]"

definition entry_jan09 :: jsval where
  "entry_jan09 = JObj [(''date'', JStr ''2026-01-09''), (''meals'', JArr []),
     (''water'', JObj [(''glasses'', JNum 1), (''ounces'', JNum 8)]),
     (''tags'', JArr [])]"

definition entry_jan13 :: jsval where
  "entry_jan13 = JObj [(''id'', JStr ''2026-01-13''), (''date'', JStr ''2026-01-13''),
     (''meals'', JArr []),
     (''water'', JObj [(''glasses'', JNum 5), (''ounces'', JNum 40)]),
     (''tags'', JArr [])]"

definition sample_app_data :: jsval where
  "sample_app_data = JObj [(''savedFoods'', JArr []), (''recentMeals'', JArr []),
     (''goals'', JObj [(''dailyCalories'', JNum 2000), (''protein'', JNum 150),
        (''carbs'', JNum 200), (''fats'', JNum 65), (''waterGlasses'', JNum 8)]),
     (''weightHistory'', JArr [])]"

definition sample_json :: "(string \<times> jsval) list" where
  "sample_json =
     [(''<jan10>'', entry_jan10), (''<jan11>'', entry_jan11), (''<jan12>'', entry_jan12),
      (''<jan13>'', entry_jan13), (''<jan09>'', entry_jan09), (''<settings>'', sample_app_data)]"

definition header :: "string \<Rightarrow> rat \<Rightarrow> bool \<Rightarrow> jsval" where
  "header d n enc =
     JObj [(''date'', JStr d), (''totalCalories'', JNum n), (''encrypted'', JBool enc)]"

definition sample_headers :: "(string \<times> jsval) list" where
  "sample_headers =
     [(''h10'', header ''2026-01-10'' 240 False), (''h10e'', header ''2026-01-10'' 240 True),
      (''h11'', header ''2026-01-11'' 0 False), (''h12'', header ''2026-01-12'' 0 False),
      (''h13'', header ''2026-01-13'' 0 False), (''h09'', header ''2026-01-09'' 0 False),
      (''h0'', JObj [(''totalCalories'', JNum 0)])]"

definition sample_parse :: "string \<Rightarrow> js_error + jsval" where
  "sample_parse t = (case map_of sample_json (chomp t) of None \<Rightarrow> Inl SyntaxError | Some v \<Rightarrow> Inr v)"

definition sample_stringify :: "jsval \<Rightarrow> string" where
  "sample_stringify v =
     (case map_of (map (\<lambda>(t, w). (w, t)) sample_json) v of None \<Rightarrow> ''null'' | Some t \<Rightarrow> t)"

text \<open>A sample file is its header's name, a bar, and the body; text without a bar has
  no front matter.\<close>

definition sample_matter :: "string \<Rightarrow> js_error + (jsval \<times> string)" where
  "sample_matter t =
     (if CHR ''|'' \<notin> set t then Inr (JObj [], t)
      else (case map_of sample_headers (takeWhile (\<lambda>c. c \<noteq> CHR ''|'') t) of
              None \<Rightarrow> Inl YAMLException
            | Some d \<Rightarrow> Inr (d, tl (dropWhile (\<lambda>c. c \<noteq> CHR ''|'') t))))"

definition sample_matter_stringify :: "string \<Rightarrow> jsval \<Rightarrow> string" where
  "sample_matter_stringify c d =
     (case map_of (map (\<lambda>(t, w). (w, t)) sample_headers) d of
        None \<Rightarrow> c
      | Some h \<Rightarrow> h @ ''|'' @ c)"

definition digits_value :: "string \<Rightarrow> int" where
  "digits_value d = foldl (\<lambda>a c. 10 * a + (int (of_char c) - 48)) 0 (filter is_digit d)"

definition sample_getTime :: "jsval \<Rightarrow> int option" where
  "sample_getTime v = (case v of
       JStr d \<Rightarrow> if re_match re_date d then Some (digits_value d) else None
     | _ \<Rightarrow> None)"

definition sample_number_text :: "rat \<Rightarrow> string" where
  "sample_number_text x =
     (if 0 \<le> x \<and> x = of_int \<lfloor>x\<rfloor> then string_of_nat (nat \<lfloor>x\<rfloor>) else ''#'')"

definition sample_message :: "issue \<Rightarrow> string" where
  "sample_message i = (case issue_code i of
       invalid_type \<Rightarrow> ''Invalid input''
     | too_small \<Rightarrow> ''Too small''
     | too_big \<Rightarrow> ''Too big''
     | invalid_enum_value \<Rightarrow> ''Invalid option''
     | invalid_string \<Rightarrow> ''Invalid string'')"

definition sample_libs :: libs where
  "sample_libs = \<lparr>
     AES_encrypt = (\<lambda>salt t p. seal p t),
     AES_decrypt_Utf8 = sample_decrypt,
     JSON_parse = sample_parse,
     JSON_stringify = sample_stringify,
     matter = sample_matter,
     matter_stringify = sample_matter_stringify,
     Date_getTime = sample_getTime,
     Number_toString = sample_number_text,
     String_toNumber = (\<lambda>t. None),
     zod_message = sample_message\<rparr>"

definition fresh_store :: state where
  "fresh_store = \<lparr>dataPath = Some ''/data'', encryptionPassword = Some ''secret'',
     files = [], fs_calls = []\<rparr>"

text \<open>A store without a password whose directory lists January 11 before 12 before 10.\<close>

definition plain_store :: state where
  "plain_store = \<lparr>dataPath = Some ''/data'', encryptionPassword = None,
     files = [(''/data/daily/2026-01-11.md'', ''h11|<jan11>''),
              (''/data/daily/2026-01-12.md'', ''h12|<jan12>''),
              (''/data/daily/2026-01-10.md'', ''h10|<jan10>'')],
     fs_calls = []\<rparr>"



section \<open>What the theorems assume of the libraries\<close>





section \<open>The write pattern the design describes\<close>

text \<open>
  The design's words for a save: the content is written to a temporary file, which is
  then renamed onto the canonical path, so that the canonical path is never written
  directly. \<open>spec_temp_then_rename calls p\<close> says that the journal \<open>calls\<close> shows this
  pattern for the path \<open>p\<close>.
\<close>

definition spec_temp_then_rename :: "fs_call list \<Rightarrow> string \<Rightarrow> bool" where
  "spec_temp_then_rename calls p =
     (list_ex (\<lambda>c. case c of
                  Rename tmp q \<Rightarrow>
                    q = p \<and> tmp \<noteq> p \<and>
                    list_ex (\<lambda>w. case w of WriteFile f x \<Rightarrow> f = tmp | _ \<Rightarrow> False) calls
                | _ \<Rightarrow> False) calls
      \<and> \<not> list_ex (\<lambda>c. case c of WriteFile f x \<Rightarrow> f = p | _ \<Rightarrow> False) calls)"

section \<open>More sample stores\<close>

text \<open>A store under the password \<open>secret\<close> with one well-formed file and one file whose
  body is not a ciphertext.\<close>

definition broken_store :: state where
  "broken_store = \<lparr>dataPath = Some ''/data'', encryptionPassword = Some ''secret'',
     files = [(''/data/daily/2026-01-11.md'', ''h11|+s+e+c+r+e+t.<jan11>''),
              (''/data/daily/2026-01-12.md'', ''h12|garbage'')],
     fs_calls = []\<rparr>"


text \<open>A file whose name contains \<^verbatim>\<open>.md\<close> before its extension, whose header is dated
  January 10 and whose body is the record of January 12.\<close>

definition odd_store :: state where
  "odd_store = \<lparr>dataPath = Some ''/data'', encryptionPassword = None,
     files = [(''/data/daily/a.mdb.md'', ''h10|<jan12>'')],
     fs_calls = []\<rparr>"

section \<open>The ranges and the order the design describes\<close>

text \<open>
  The design's words for a listing: the records whose date lies between the bounds,
  both inclusive, where an absent bound imposes no constraint, most recent first. A
  bound is absent when it is not given or is the empty string. \<open>record_date\<close> is the
  date string of a record and \<open>timestamp\<close> the time its date denotes.
\<close>

definition record_date :: "jsval \<Rightarrow> string" where
  "record_date e = (case field e ''date'' of JStr d \<Rightarrow> d | _ \<Rightarrow> [])"




section \<open>The file name stem\<close>

text \<open>The stem of a file name is the name without its extension \<^verbatim>\<open>.md\<close>. \<open>md_only_suffix\<close>
  says that \<^verbatim>\<open>.md\<close> occurs in the name \<open>stem @ ''.md''\<close> at its end only.\<close>

definition md_only_suffix :: "string \<Rightarrow> bool" where
  "md_only_suffix stem = (\<not> str_includes (stem @ ''.m'') ''.md'')"

text \<open>A store whose first file has a header dated January 10 over the body of January 12
  (which carries the id \<open>other\<close>), and whose second file has a header without a date.\<close>

definition mixed_store :: state where
  "mixed_store = \<lparr>dataPath = Some ''/data'', encryptionPassword = None,
     files = [(''/data/daily/2026-01-10.md'', ''h10|<jan12>''),
              (''/data/daily/undated.md'', ''h0|<jan11>'')],
     fs_calls = []\<rparr>"

section \<open>The documented bounds and closed sets\<close>










section \<open>The CSV export the design describes\<close>

text \<open>
  The design's words for a row: the record's date, the sums of calories, protein, carbs
  and fats over all foods of all meals, the calories burned (0 without exercise), the
  weight (blank when absent) and the glasses of water. \<open>spec_csv_row\<close> is that row;
  \<open>blank_zero_csv_row\<close> differs from it in one cell: a weight of 0 is blank as well.
\<close>

definition num :: "jsval \<Rightarrow> rat" where
  "num v = (case v of JNum x \<Rightarrow> x | _ \<Rightarrow> 0)"



definition burned :: "jsval \<Rightarrow> rat" where
  "burned e = num (field (field e ''exercise'') ''caloriesBurned'')"













section \<open>Helper lemmas on the file system\<close>

lemma map_of_filter_other: "map_of (filter (\<lambda>(q, c). q \<noteq> p) fs) p = None"
  by (induction fs) auto

lemma filter_absent: "map_of fs p = None \<Longrightarrow> filter (\<lambda>(q, c). q \<noteq> p) fs = fs"
  by (induction fs) (auto split: if_splits)

lemma ensureDataPath_set:
  "dataPath s = Some dp \<Longrightarrow> dp \<noteq> [] \<Longrightarrow>
   ensureDataPath s = (Inr dp, s\<lparr>fs_calls := fs_calls s @ [Mkdir dp, Mkdir (path_join dp ''daily'')]\<rparr>)"
  by (simp add: ensureDataPath_def truthy_str_def fs_mkdir_def journal_def)

lemma ensureDataPath_unset:
  "\<not> truthy_str (dataPath s) \<Longrightarrow> ensureDataPath s = (Inl DataPathNotSet, s)"
  by (simp add: ensureDataPath_def)

section \<open>Deleting twice\<close>

lemma delete_daily_entry_step:
  assumes "dataPath s = Some dp" and "dp \<noteq> []"
    and "p = path_join (path_join dp ''daily'') (d @ ''.md'')"
  shows "fst (delete_daily_entry s d) = (if existsSync s p then Inr () else Inl (Caught (ENOENT p)))"
    and "files (snd (delete_daily_entry s d)) = filter (\<lambda>(q, c). q \<noteq> p) (files s)"
    and "dataPath (snd (delete_daily_entry s d)) = Some dp"
proof -
  note e = ensureDataPath_set [OF assms(1,2)]
  show "fst (delete_daily_entry s d) = (if existsSync s p then Inr () else Inl (Caught (ENOENT p)))"
    by (simp add: delete_daily_entry_def e fs_unlink_def assms(3) Let_def existsSync_def)
  show "dataPath (snd (delete_daily_entry s d)) = Some dp"
    using assms(1)
    by (simp add: delete_daily_entry_def e fs_unlink_def assms(3) Let_def existsSync_def journal_def)
  show "files (snd (delete_daily_entry s d)) = filter (\<lambda>(q, c). q \<noteq> p) (files s)"
  proof (cases "map_of (files s) p")
    case None
    then show ?thesis using filter_absent [OF None]
      by (simp add: delete_daily_entry_def e fs_unlink_def assms(3) Let_def existsSync_def journal_def)
  next
    case (Some c)
    then show ?thesis
      by (simp add: delete_daily_entry_def e fs_unlink_def assms(3) Let_def existsSync_def journal_def)
  qed
qed

text \<open>
  C7, as the program has it. With a data folder selected, deleting the entry of a date
  whose file exists removes the file and reports success. Deleting a date that has no
  file reports a failure, the \<open>ENOENT\<close> that \<^verbatim>\<open>fs.unlink\<close> rejected with, and leaves the
  files as they were. So the second of two deletions in succession always reports that
  failure. The handler catches the rejection: it returns a result in every case.
\<close>

theorem delete_daily_entry_result:
  assumes "dataPath s = Some dp" and "dp \<noteq> []"
    and "p = path_join (path_join dp ''daily'') (d @ ''.md'')"
  shows "fst (delete_daily_entry s d) = (if existsSync s p then Inr () else Inl (Caught (ENOENT p)))
    \<and> files (snd (delete_daily_entry s d)) = filter (\<lambda>(q, c). q \<noteq> p) (files s)
    \<and> (\<not> existsSync s p \<longrightarrow> files (snd (delete_daily_entry s d)) = files s)
    \<and> fst (delete_daily_entry (snd (delete_daily_entry s d)) d) = Inl (Caught (ENOENT p))"
proof -
  let ?t = "snd (delete_daily_entry s d)"
  note first = delete_daily_entry_step [OF assms]
  have absent: "\<not> existsSync ?t p"
    by (simp add: existsSync_def first(2) map_of_filter_other)
  have second: "fst (delete_daily_entry ?t d) = Inl (Caught (ENOENT p))"
    using delete_daily_entry_step(1) [OF first(3) assms(2,3)] absent by simp
  have unchanged: "\<not> existsSync s p \<longrightarrow> files ?t = files s"
    using first(2) filter_absent [of "files s" p] by (simp add: existsSync_def)
  from first(1) first(2) unchanged second show ?thesis by blast
qed

theorem delete_daily_entry_result_witness:
  "dataPath plain_store = Some ''/data''
   \<and> fst (delete_daily_entry plain_store ''2026-01-10'') = Inr ()
   \<and> files (snd (delete_daily_entry plain_store ''2026-01-10''))
       = [(''/data/daily/2026-01-11.md'', ''h11|<jan11>''),
          (''/data/daily/2026-01-12.md'', ''h12|<jan12>'')]
   \<and> fst (delete_daily_entry (snd (delete_daily_entry plain_store ''2026-01-10'')) ''2026-01-10'')
       = Inl (Caught (ENOENT ''/data/daily/2026-01-10.md''))"
proof -
  have a: "dataPath plain_store = Some ''/data''" by (simp add: plain_store_def)
  have b: "''/data'' \<noteq> []" by simp
  have c: "''/data/daily/2026-01-10.md''
      = path_join (path_join ''/data'' ''daily'') (''2026-01-10'' @ ''.md'')"
    by (simp add: path_join_def)
  have e: "existsSync plain_store ''/data/daily/2026-01-10.md''"
    by (simp add: existsSync_def plain_store_def)
  have f: "filter (\<lambda>(q, c). q \<noteq> ''/data/daily/2026-01-10.md'') (files plain_store)
      = [(''/data/daily/2026-01-11.md'', ''h11|<jan11>''),
         (''/data/daily/2026-01-12.md'', ''h12|<jan12>'')]"
    by (simp add: plain_store_def)
  from delete_daily_entry_result [OF a b c] a e f show ?thesis by simp
qed

text \<open>The claim as stated fails: the first deletion succeeds, the second one reports an
  error, and so does the deletion of a date that never had a file.\<close>

theorem delete_twice_counterexample:
  "fst (delete_daily_entry plain_store ''2026-01-10'') = Inr ()
   \<and> fst (delete_daily_entry (snd (delete_daily_entry plain_store ''2026-01-10'')) ''2026-01-10'')
       = Inl (Caught (ENOENT ''/data/daily/2026-01-10.md''))
   \<and> fst (delete_daily_entry plain_store ''2026-02-01'')
       = Inl (Caught (ENOENT ''/data/daily/2026-02-01.md''))"
  by code_simp

section \<open>Verifying a password\<close>











section \<open>How the save handlers write\<close>

lemma map_of_put_file: "map_of (put_file p c fs) p = Some c"
  by (induction fs) auto

lemma save_daily_entry_effect:
  assumes "dataPath s = Some dp" and "dp \<noteq> []"
  shows "validateData L DailyEntrySchema entry = Inl msg \<Longrightarrow>
         save_daily_entry L s salt entry =
           (Inl (Validation msg),
            s\<lparr>fs_calls := fs_calls s @ [Mkdir dp, Mkdir (path_join dp ''daily'')]\<rparr>)"
    and "validateData L DailyEntrySchema entry = Inr v \<Longrightarrow>
         save_daily_entry L s salt entry =
           (Inr (field v ''date''),
            fs_writeFile (path_join (path_join dp ''daily'') (js_to_string L (field v ''date'') @ ''.md''))
              (matter_stringify L (stored_json L (encryptionPassword s) salt v)
                 (entry_frontmatter L (encryptionPassword s) v))
              (s\<lparr>fs_calls := fs_calls s @ [Mkdir dp, Mkdir (path_join dp ''daily'')]\<rparr>))"
  by (simp_all add: save_daily_entry_def ensureDataPath_set [OF assms] Let_def)

lemma save_app_data_effect:
  assumes "dataPath s = Some dp" and "dp \<noteq> []"
  shows "validateData L AppDataSchema data = Inl msg \<Longrightarrow>
         save_app_data L s salt data =
           (Inl (Validation msg),
            s\<lparr>fs_calls := fs_calls s @ [Mkdir dp, Mkdir (path_join dp ''daily'')]\<rparr>)"
    and "validateData L AppDataSchema data = Inr v \<Longrightarrow>
         save_app_data L s salt data =
           (Inr (),
            fs_writeFile (path_join dp ''app-data.json'')
              (stored_json L (encryptionPassword s) salt v)
              (s\<lparr>fs_calls := fs_calls s @ [Mkdir dp, Mkdir (path_join dp ''daily'')]\<rparr>))"
  by (simp_all add: save_app_data_def ensureDataPath_set [OF assms] Let_def)

text \<open>
  C3, as the program has it. With a data folder selected, a save of a daily entry and a
  save of the settings document each issue, after the two \<^verbatim>\<open>mkdir\<close> calls, nothing when
  validation fails and otherwise exactly one \<^verbatim>\<open>writeFile\<close> of the complete content,
  directly on the canonical path, where that content then stands. No temporary file is
  written and nothing is renamed.
\<close>

theorem save_writes_canonical_path_directly:
  assumes "dataPath s = Some dp" and "dp \<noteq> []"
  shows "fs_calls (snd (save_daily_entry L s salt entry)) =
           fs_calls s @ [Mkdir dp, Mkdir (path_join dp ''daily'')] @
           (case validateData L DailyEntrySchema entry of
              Inl msg \<Rightarrow> []
            | Inr v \<Rightarrow>
                [WriteFile (path_join (path_join dp ''daily'') (js_to_string L (field v ''date'') @ ''.md''))
                   (matter_stringify L (stored_json L (encryptionPassword s) salt v)
                      (entry_frontmatter L (encryptionPassword s) v))])
       \<and> fs_calls (snd (save_app_data L s salt data)) =
           fs_calls s @ [Mkdir dp, Mkdir (path_join dp ''daily'')] @
           (case validateData L AppDataSchema data of
              Inl msg \<Rightarrow> []
            | Inr v \<Rightarrow>
                [WriteFile (path_join dp ''app-data.json'')
                   (stored_json L (encryptionPassword s) salt v)])
       \<and> (\<forall>v. validateData L DailyEntrySchema entry = Inr v \<longrightarrow>
             map_of (files (snd (save_daily_entry L s salt entry)))
               (path_join (path_join dp ''daily'') (js_to_string L (field v ''date'') @ ''.md''))
             = Some (matter_stringify L (stored_json L (encryptionPassword s) salt v)
                      (entry_frontmatter L (encryptionPassword s) v)))
       \<and> (\<forall>v. validateData L AppDataSchema data = Inr v \<longrightarrow>
             map_of (files (snd (save_app_data L s salt data))) (path_join dp ''app-data.json'')
             = Some (stored_json L (encryptionPassword s) salt v))"
proof -
  have a: "fs_calls (snd (save_daily_entry L s salt entry)) =
           fs_calls s @ [Mkdir dp, Mkdir (path_join dp ''daily'')] @
           (case validateData L DailyEntrySchema entry of
              Inl msg \<Rightarrow> []
            | Inr v \<Rightarrow>
                [WriteFile (path_join (path_join dp ''daily'') (js_to_string L (field v ''date'') @ ''.md''))
                   (matter_stringify L (stored_json L (encryptionPassword s) salt v)
                      (entry_frontmatter L (encryptionPassword s) v))])"
    by (cases "validateData L DailyEntrySchema entry")
      (simp_all add: save_daily_entry_effect [OF assms] fs_writeFile_def journal_def)
  have b: "fs_calls (snd (save_app_data L s salt data)) =
           fs_calls s @ [Mkdir dp, Mkdir (path_join dp ''daily'')] @
           (case validateData L AppDataSchema data of
              Inl msg \<Rightarrow> []
            | Inr v \<Rightarrow>
                [WriteFile (path_join dp ''app-data.json'')
                   (stored_json L (encryptionPassword s) salt v)])"
    by (cases "validateData L AppDataSchema data")
      (simp_all add: save_app_data_effect [OF assms] fs_writeFile_def journal_def)
  have c: "\<forall>v. validateData L DailyEntrySchema entry = Inr v \<longrightarrow>
             map_of (files (snd (save_daily_entry L s salt entry)))
               (path_join (path_join dp ''daily'') (js_to_string L (field v ''date'') @ ''.md''))
             = Some (matter_stringify L (stored_json L (encryptionPassword s) salt v)
                      (entry_frontmatter L (encryptionPassword s) v))"
    by (simp add: save_daily_entry_effect [OF assms] fs_writeFile_def journal_def map_of_put_file)
  have d: "\<forall>v. validateData L AppDataSchema data = Inr v \<longrightarrow>
             map_of (files (snd (save_app_data L s salt data))) (path_join dp ''app-data.json'')
             = Some (stored_json L (encryptionPassword s) salt v)"
    by (simp add: save_app_data_effect [OF assms] fs_writeFile_def journal_def map_of_put_file)
  from a b c d show ?thesis by blast
qed

lemma sample_entry_valid:
  "validateData sample_libs DailyEntrySchema entry_jan10 = Inr entry_jan10"
  by code_simp

lemma sample_app_data_valid:
  "validateData sample_libs AppDataSchema sample_app_data = Inr sample_app_data"
  by code_simp

theorem save_writes_canonical_path_directly_witness:
  "fs_calls (snd (save_daily_entry sample_libs fresh_store 0 entry_jan10)) =
     [Mkdir ''/data'', Mkdir ''/data/daily'',
      WriteFile ''/data/daily/2026-01-10.md'' ''h10e|+s+e+c+r+e+t.<jan10>'']
   \<and> fs_calls (snd (save_app_data sample_libs fresh_store 0 sample_app_data)) =
     [Mkdir ''/data'', Mkdir ''/data/daily'',
      WriteFile ''/data/app-data.json'' ''+s+e+c+r+e+t.<settings>'']
   \<and> map_of (files (snd (save_daily_entry sample_libs fresh_store 0 entry_jan10)))
       ''/data/daily/2026-01-10.md'' = Some ''h10e|+s+e+c+r+e+t.<jan10>''
   \<and> map_of (files (snd (save_app_data sample_libs fresh_store 0 sample_app_data)))
       ''/data/app-data.json'' = Some ''+s+e+c+r+e+t.<settings>''"
proof -
  have a: "dataPath fresh_store = Some ''/data''" by (simp add: fresh_store_def)
  have n: "''/data'' \<noteq> []" by simp
  have p1: "path_join ''/data/daily''
      (js_to_string sample_libs (field entry_jan10 ''date'') @ ''.md'') = ''/data/daily/2026-01-10.md''"
    by code_simp
  have c1: "matter_stringify sample_libs
      (stored_json sample_libs (encryptionPassword fresh_store) 0 entry_jan10)
      (entry_frontmatter sample_libs (encryptionPassword fresh_store) entry_jan10)
      = ''h10e|+s+e+c+r+e+t.<jan10>''"
    by code_simp
  have p2: "path_join ''/data'' ''app-data.json'' = ''/data/app-data.json''"
    by (simp add: path_join_def)
  have p3: "path_join ''/data'' ''daily'' = ''/data/daily''"
    by (simp add: path_join_def)
  have c2: "stored_json sample_libs (encryptionPassword fresh_store) 0 sample_app_data
      = ''+s+e+c+r+e+t.<settings>''"
    by code_simp
  have f: "fs_calls fresh_store = []" by (simp add: fresh_store_def)
  from save_writes_canonical_path_directly [OF a n, where L = sample_libs and salt = 0
      and entry = entry_jan10 and data = sample_app_data]
  show ?thesis
    by (simp add: sample_entry_valid sample_app_data_valid p1 p2 p3 c1 c2 f)
qed

text \<open>The claim as stated fails: the journal of a successful save shows no temporary
  file and no rename, for a daily entry and for the settings document alike.\<close>

theorem temp_then_rename_counterexample:
  "fst (save_daily_entry sample_libs fresh_store 0 entry_jan10) = Inr (JStr ''2026-01-10'')
   \<and> \<not> spec_temp_then_rename (fs_calls (snd (save_daily_entry sample_libs fresh_store 0 entry_jan10)))
        ''/data/daily/2026-01-10.md''
   \<and> fst (save_app_data sample_libs fresh_store 0 sample_app_data) = Inr ()
   \<and> \<not> spec_temp_then_rename (fs_calls (snd (save_app_data sample_libs fresh_store 0 sample_app_data)))
        ''/data/app-data.json''"
  by code_simp

section \<open>Facts about strings, patterns and objects\<close>







lemma strip_prefix_Some: "strip_prefix xs zs = Some ys \<Longrightarrow> zs = xs @ ys"
  by (induction xs zs rule: strip_prefix.induct) (auto split: if_splits)



lemma lookup_set_prop_same: "lookup (set_prop k v kvs) k = v"
  by (induction kvs) (auto simp: lookup_def)

lemma lookup_set_prop_other: "k' \<noteq> k \<Longrightarrow> lookup (set_prop k v kvs) k' = lookup kvs k'"
  by (induction kvs) (auto simp: lookup_def)



section \<open>Facts about validation\<close>




section \<open>Saving an entry and listing it\<close>







lemma read_file_entry_journal:
  "read_file_entry L (s\<lparr>fs_calls := x\<rparr>) = read_file_entry L s"
  by (rule ext)+ (simp add: read_file_entry_def split: option.splits)


lemma get_daily_entries_of_records:
  assumes "dataPath s = Some dp" and "dp \<noteq> []"
  shows "fst (get_daily_entries L s a b) =
     (case stored_records L s dp of
        Inl e \<Rightarrow> []
      | Inr entries \<Rightarrow> js_sort (date_desc L) (filter_range L a b entries))"
proof -
  let ?s1 = "s\<lparr>fs_calls := fs_calls s @ [Mkdir dp, Mkdir (path_join dp ''daily'')]\<rparr>"
  have "stored_records L ?s1 dp = stored_records L s dp"
    by (simp add: stored_records_def md_files_def read_file_entry_journal)
  then show ?thesis
    by (cases "stored_records L s dp")
      (simp_all add: get_daily_entries_def ensureDataPath_set [OF assms] read_entries_def Let_def)
qed




section \<open>One unreadable file\<close>

lemma all_or_error_Inl: "Inl e \<in> set rs \<Longrightarrow> \<exists>e'. all_or_error rs = Inl e'"
proof (induction rs)
  case Nil
  then show ?case by simp
next
  case (Cons r rs)
  then show ?case
    by (cases r; cases "all_or_error rs") auto
qed

text \<open>
  C2, what the program does instead. When one \<^verbatim>\<open>.md\<close> file of the daily folder has a body
  that does not decrypt (the sentinel text that replaces it is not JSON) or does not
  parse, get-daily-entries returns the empty list, whatever the other files hold.
\<close>

theorem unreadable_file_empties_listing:
  assumes "dataPath s = Some dp" and "dp \<noteq> []"
    and "file \<in> set (md_files s (path_join dp ''daily''))"
    and "map_of (files s) (path_join (path_join dp ''daily'') file) = Some content"
    and "matter L content = Inr (data, body)"
    and "(truthy_str (encryptionPassword s)
            \<and> (\<exists>e. decrypt L body (the (encryptionPassword s)) = Inl e)
            \<and> (\<exists>e. JSON_parse L unable_to_decrypt = Inl e))
         \<or> (\<exists>e. JSON_parse L (entry_content L (encryptionPassword s) body) = Inl e)"
  shows "fst (get_daily_entries L s startDate endDate) = []"
proof -
  have "\<exists>e. JSON_parse L (entry_content L (encryptionPassword s) body) = Inl e"
    using assms(6) by (auto simp: entry_content_def)
  then obtain e where "read_file_entry L s (path_join dp ''daily'') file = Inl e"
    using assms(4,5) by (auto simp: read_file_entry_def decode_entry_def)
  then have "Inl e \<in> set (map (read_file_entry L s (path_join dp ''daily''))
      (md_files s (path_join dp ''daily'')))"
    using assms(3) by force
  then have "\<exists>e'. all_or_error (map (read_file_entry L s (path_join dp ''daily''))
      (md_files s (path_join dp ''daily''))) = Inl e'"
    by (rule all_or_error_Inl)
  then obtain e' where "stored_records L s dp = Inl e'"
    by (auto simp: stored_records_def)
  then show ?thesis
    using get_daily_entries_of_records [OF assms(1,2), of L startDate endDate] by simp
qed

theorem unreadable_file_empties_listing_witness:
  "read_file_entry sample_libs broken_store ''/data/daily'' ''2026-01-11.md''
     = Inr (JObj (spread entry_jan11 @ [(''id'', JStr ''2026-01-11'')]))
   \<and> decrypt sample_libs ''garbage'' ''secret'' = Inl MalformedUtf8
   \<and> fst (get_daily_entries sample_libs broken_store None None) = []"
proof -
  have a: "dataPath broken_store = Some ''/data''" by (simp add: broken_store_def)
  have n: "''/data'' \<noteq> []" by simp
  have f: "''2026-01-12.md'' \<in> set (md_files broken_store (path_join ''/data'' ''daily''))"
    by code_simp
  have c: "map_of (files broken_store) (path_join (path_join ''/data'' ''daily'') ''2026-01-12.md'')
      = Some ''h12|garbage''"
    by code_simp
  have m: "matter sample_libs ''h12|garbage'' = Inr (header ''2026-01-12'' 0 False, ''garbage'')"
    by code_simp
  have d: "decrypt sample_libs ''garbage'' ''secret'' = Inl MalformedUtf8" by code_simp
  have p: "JSON_parse sample_libs unable_to_decrypt = Inl SyntaxError" by code_simp
  have t: "truthy_str (encryptionPassword broken_store)"
    and pw: "the (encryptionPassword broken_store) = ''secret''"
    by (simp_all add: broken_store_def truthy_str_def)
  have bad: "(truthy_str (encryptionPassword broken_store)
            \<and> (\<exists>e. decrypt sample_libs ''garbage'' (the (encryptionPassword broken_store)) = Inl e)
            \<and> (\<exists>e. JSON_parse sample_libs unable_to_decrypt = Inl e))
         \<or> (\<exists>e. JSON_parse sample_libs
                 (entry_content sample_libs (encryptionPassword broken_store) ''garbage'') = Inl e)"
    using t d p pw by simp
  have g: "read_file_entry sample_libs broken_store ''/data/daily'' ''2026-01-11.md''
     = Inr (JObj (spread entry_jan11 @ [(''id'', JStr ''2026-01-11'')]))"
    by code_simp
  from unreadable_file_empties_listing [OF a n f c m bad, of None None] g d
  show ?thesis by simp
qed

section \<open>The listing: range and order\<close>








section \<open>The order of search results\<close>

text \<open>
  C6, what the program does instead. search-entries never sorts: its results stand in
  the order in which the directory lists the files. In the sample store the directory
  lists January 11, 12, 10. A search with no text and no tags, for which the claim
  gives the unbounded listing itself (January 12, 11, 10), returns the same three
  records in directory order.
\<close>

theorem search_keeps_directory_order:
  "map record_date (fst (search_entries sample_libs plain_store [] []))
     = [''2026-01-11'', ''2026-01-12'', ''2026-01-10'']
   \<and> map record_date (fst (get_daily_entries sample_libs plain_store None None))
     = [''2026-01-12'', ''2026-01-11'', ''2026-01-10'']
   \<and> fst (search_entries sample_libs plain_store [] [])
     \<noteq> fst (get_daily_entries sample_libs plain_store None None)
   \<and> mset (fst (search_entries sample_libs plain_store [] []))
     = mset (fst (get_daily_entries sample_libs plain_store None None))"
proof -
  have a: "map record_date (fst (search_entries sample_libs plain_store [] []))
     = [''2026-01-11'', ''2026-01-12'', ''2026-01-10'']"
    by code_simp
  have b: "map record_date (fst (get_daily_entries sample_libs plain_store None None))
     = [''2026-01-12'', ''2026-01-11'', ''2026-01-10'']"
    by code_simp
  have c: "fst (search_entries sample_libs plain_store [] [])
     \<noteq> fst (get_daily_entries sample_libs plain_store None None)"
    using a b by auto
  obtain x y z where s: "fst (search_entries sample_libs plain_store [] []) = [x, y, z]"
    and l: "fst (get_daily_entries sample_libs plain_store None None) = [y, x, z]"
  proof
    show "fst (search_entries sample_libs plain_store [] [])
      = [JObj (spread entry_jan11 @ [(''id'', JStr ''2026-01-11'')]),
         JObj (set_prop ''id'' (JStr ''2026-01-12'') (spread entry_jan12)),
         JObj (spread entry_jan10 @ [(''id'', JStr ''2026-01-10'')])]"
      by code_simp
    show "fst (get_daily_entries sample_libs plain_store None None)
      = [JObj (set_prop ''id'' (JStr ''2026-01-12'') (spread entry_jan12)),
         JObj (spread entry_jan11 @ [(''id'', JStr ''2026-01-11'')]),
         JObj (spread entry_jan10 @ [(''id'', JStr ''2026-01-10'')])]"
      by code_simp
  qed
  have d: "mset (fst (search_entries sample_libs plain_store [] []))
     = mset (fst (get_daily_entries sample_libs plain_store None None))"
    by (simp add: s l)
  from a b c d show ?thesis by blast
qed

section \<open>The date and the id of a decoded record\<close>

lemma strip_prefix_longer:
  "strip_prefix p xs = None \<Longrightarrow> length p \<le> length xs \<Longrightarrow> strip_prefix p (xs @ ys) = None"
  by (induction p xs rule: strip_prefix.induct) (auto split: if_splits)

lemma replace_first_stem:
  "md_only_suffix stem \<Longrightarrow> replace_first ''.md'' [] (stem @ ''.md'') = stem"
proof (induction stem)
  case Nil
  then show ?case by simp
next
  case (Cons c cs)
  from Cons.prems have none: "strip_prefix ''.md'' (c # cs @ ''.m'') = None"
    and rest: "md_only_suffix cs"
    by (auto simp: md_only_suffix_def)
  have "strip_prefix ''.md'' ((c # cs @ ''.m'') @ ''d'') = None"
    using none by (rule strip_prefix_longer) simp
  then have "strip_prefix ''.md'' (c # cs @ ''.md'') = None" by simp
  then show ?case using Cons.IH [OF rest] by simp
qed

lemma all_or_error_nth:
  "all_or_error rs = Inr xs \<Longrightarrow>
   length xs = length rs \<and> (\<forall>i < length rs. rs ! i = Inr (xs ! i))"
proof (induction rs arbitrary: xs)
  case Nil
  then show ?case by simp
next
  case (Cons r rs)
  then obtain x ys where r: "r = Inr x" and ys: "all_or_error rs = Inr ys" and xs: "xs = x # ys"
    by (cases r; cases "all_or_error rs") auto
  from Cons.IH [OF ys] have "length ys = length rs" and "\<forall>i < length rs. rs ! i = Inr (ys ! i)"
    by auto
  then show ?case using r xs by (auto simp: nth_Cons split: nat.splits)
qed

lemma field_set_prop_same: "field (JObj (set_prop k v kvs)) k = v"
  by (simp add: field_def lookup_set_prop_same)

lemma field_set_prop_other: "k' \<noteq> k \<Longrightarrow> field (JObj (set_prop k v kvs)) k' = lookup kvs k'"
  by (simp add: field_def lookup_set_prop_other)

lemma decode_entry_id_date:
  assumes "decode_entry L pw file content = Inr e"
    and "matter L content = Inr (data, body)"
  shows "field e ''id'' = JStr (replace_first ''.md'' [] file)"
    and "get_prop data ''date'' = Inr d \<Longrightarrow> truthy d \<Longrightarrow> field e ''date'' = d"
    and "get_prop data ''date'' = Inr d \<Longrightarrow> \<not> truthy d \<Longrightarrow>
         JSON_parse L (entry_content L pw body) = Inr entry \<Longrightarrow>
         get_prop entry ''date'' = Inr bd \<Longrightarrow> field e ''date'' = bd"
proof -
  obtain entry' d' where p: "JSON_parse L (entry_content L pw body) = Inr entry'"
    and dd: "date_of data entry' = Inr d'"
    and e: "e = JObj (set_prop ''date'' d'
               (set_prop ''id'' (JStr (replace_first ''.md'' [] file)) (spread entry')))"
    using assms by (auto simp: decode_entry_def split: sum.splits)
  show "field e ''id'' = JStr (replace_first ''.md'' [] file)"
    by (simp add: e field_set_prop_other lookup_set_prop_same)
  show "get_prop data ''date'' = Inr d \<Longrightarrow> truthy d \<Longrightarrow> field e ''date'' = d"
    using dd by (simp add: e field_set_prop_same date_of_def)
  show "get_prop data ''date'' = Inr d \<Longrightarrow> \<not> truthy d \<Longrightarrow>
         JSON_parse L (entry_content L pw body) = Inr entry \<Longrightarrow>
         get_prop entry ''date'' = Inr bd \<Longrightarrow> field e ''date'' = bd"
    using dd p by (simp add: e field_set_prop_same date_of_def)
qed

lemma set_insert_sorted: "set (insert_sorted cmp x ys) = insert x (set ys)"
  by (induction ys) auto

lemma set_js_sort: "set (js_sort cmp xs) = set xs"
  by (induction xs) (auto simp: js_sort_def set_insert_sorted)

lemma set_filter_range: "set (filter_range L a b xs) \<subseteq> set xs"
  by (auto simp: filter_range_def Let_def)

lemma set_filter_err: "filter_err f xs = Inr ys \<Longrightarrow> set ys \<subseteq> set xs"
proof (induction xs arbitrary: ys)
  case Nil
  then show ?case by simp
next
  case (Cons x xs)
  then show ?case
    by (cases "f x"; cases "filter_err f xs") (auto split: if_splits)
qed

lemma search_entries_of_records:
  assumes "dataPath s = Some dp" and "dp \<noteq> []"
  shows "fst (search_entries L s query tags) =
     (case stored_records L s dp of
        Inl e \<Rightarrow> []
      | Inr allEntries \<Rightarrow>
          (case (if query \<noteq> [] \<and> trim query \<noteq> []
                 then filter_err (text_match (toLowerCase query)) allEntries
                 else Inr allEntries) of
             Inl e \<Rightarrow> []
           | Inr filtered \<Rightarrow>
               (case (if tags \<noteq> [] then filter_err (tag_match tags) filtered else Inr filtered) of
                  Inl e \<Rightarrow> []
                | Inr filtered' \<Rightarrow> filtered')))"
proof -
  let ?s1 = "s\<lparr>fs_calls := fs_calls s @ [Mkdir dp, Mkdir (path_join dp ''daily'')]\<rparr>"
  have "stored_records L ?s1 dp = stored_records L s dp"
    by (simp add: stored_records_def md_files_def read_file_entry_journal)
  then show ?thesis
    by (simp add: search_entries_def ensureDataPath_set [OF assms] read_entries_def Let_def
        split: sum.splits)
qed

lemma search_entries_subset:
  assumes "dataPath s = Some dp" and "dp \<noteq> []" and "stored_records L s dp = Inr entries"
  shows "set (fst (search_entries L s query tags)) \<subseteq> set entries"
  unfolding search_entries_of_records [OF assms(1,2)] assms(3)
  by (auto split: sum.splits if_splits dest!: set_filter_err [OF sym])

text \<open>
  C10, as the program has it. Every read handler works on the decoded records of the
  store's \<^verbatim>\<open>.md\<close> files: the listing and the search return some of them, and the JSON
  export writes the listing. For a file whose name has \<^verbatim>\<open>.md\<close> at its end only, the
  decoded record's \<open>id\<close> is the name's stem, whatever \<open>id\<close> the body holds. Its date is
  the header's date when that is truthy, whatever date the body holds, and the body's
  date otherwise.
\<close>

theorem decoded_record_id_and_date:
  assumes "dataPath s = Some dp" and "dp \<noteq> []"
    and "stored_records L s dp = Inr entries"
    and "i < length entries"
    and "md_files s (path_join dp ''daily'') ! i = stem @ ''.md''"
    and "md_only_suffix stem"
    and "map_of (files s) (path_join (path_join dp ''daily'') (stem @ ''.md'')) = Some content"
    and "matter L content = Inr (data, body)"
    and "get_prop data ''date'' = Inr d"
  shows "field (entries ! i) ''id'' = JStr stem
       \<and> (truthy d \<longrightarrow> field (entries ! i) ''date'' = d)
       \<and> (\<not> truthy d \<longrightarrow>
            (\<forall>entry bd. JSON_parse L (entry_content L (encryptionPassword s) body) = Inr entry
                \<and> get_prop entry ''date'' = Inr bd
              \<longrightarrow> field (entries ! i) ''date'' = bd))
       \<and> set (fst (get_daily_entries L s startDate endDate)) \<subseteq> set entries
       \<and> set (fst (search_entries L s query tags)) \<subseteq> set entries
       \<and> (truthy_str chosen \<longrightarrow>
            map_of (files (snd (export_data L s Json a b chosen))) (the chosen)
            = Some (JSON_stringify L (JArr (fst (get_daily_entries L s (Some a) (Some b))))))"
proof -
  let ?daily = "path_join dp ''daily''"
  let ?rs = "map (read_file_entry L s ?daily) (md_files s ?daily)"
  have all: "all_or_error ?rs = Inr entries"
    using assms(3) by (simp add: stored_records_def)
  from all_or_error_nth [OF all] assms(4)
  have "?rs ! i = Inr (entries ! i)" and len: "i < length (md_files s ?daily)"
    by auto
  then have "read_file_entry L s ?daily (stem @ ''.md'') = Inr (entries ! i)"
    using assms(5) by simp
  then have dec: "decode_entry L (encryptionPassword s) (stem @ ''.md'') content = Inr (entries ! i)"
    using assms(7) by (simp add: read_file_entry_def)
  note facts = decode_entry_id_date [OF dec assms(8)]
  have id: "field (entries ! i) ''id'' = JStr stem"
    using facts(1) replace_first_stem [OF assms(6)] by simp
  have hd: "truthy d \<longrightarrow> field (entries ! i) ''date'' = d"
    using facts(2) [OF assms(9)] by simp
  have bd: "\<not> truthy d \<longrightarrow>
            (\<forall>entry bd. JSON_parse L (entry_content L (encryptionPassword s) body) = Inr entry
                \<and> get_prop entry ''date'' = Inr bd
              \<longrightarrow> field (entries ! i) ''date'' = bd)"
    using facts(3) [OF assms(9)] by blast
  have li: "set (fst (get_daily_entries L s startDate endDate)) \<subseteq> set entries"
    using get_daily_entries_of_records [OF assms(1,2), of L startDate endDate] assms(3)
      set_filter_range [of L startDate endDate entries]
    by (simp add: set_js_sort)
  have se: "set (fst (search_entries L s query tags)) \<subseteq> set entries"
    by (rule search_entries_subset [OF assms(1,2,3)])
  let ?s1 = "s\<lparr>fs_calls := fs_calls s @ [Mkdir dp, Mkdir ?daily]\<rparr>"
  have sr: "stored_records L ?s1 dp = Inr entries"
    using assms(3) by (simp add: stored_records_def md_files_def read_file_entry_journal)
  have ex: "truthy_str chosen \<longrightarrow>
            map_of (files (snd (export_data L s Json a b chosen))) (the chosen)
            = Some (JSON_stringify L (JArr (fst (get_daily_entries L s (Some a) (Some b)))))"
    using get_daily_entries_of_records [OF assms(1,2), of L "Some a" "Some b"] assms(3) sr
    by (simp add: export_data_def ensureDataPath_set [OF assms(1,2)] read_entries_def Let_def
        fs_writeFile_def journal_def map_of_put_file)
  from id hd bd li se ex show ?thesis by blast
qed

theorem decoded_record_id_and_date_witness:
  "projr (JSON_parse sample_libs ''<jan12>'') = entry_jan12
   \<and> field entry_jan12 ''id'' = JStr ''other''
   \<and> field entry_jan12 ''date'' = JStr ''2026-01-12''
   \<and> field (projr (stored_records sample_libs mixed_store ''/data'') ! 0) ''id'' = JStr ''2026-01-10''
   \<and> field (projr (stored_records sample_libs mixed_store ''/data'') ! 0) ''date'' = JStr ''2026-01-10''
   \<and> field (projr (stored_records sample_libs mixed_store ''/data'') ! 1) ''id'' = JStr ''undated''
   \<and> field (projr (stored_records sample_libs mixed_store ''/data'') ! 1) ''date'' = JStr ''2026-01-11''"
proof -
  let ?es = "projr (stored_records sample_libs mixed_store ''/data'')"
  have a: "dataPath mixed_store = Some ''/data''" by (simp add: mixed_store_def)
  have n: "''/data'' \<noteq> []" by simp
  have r: "stored_records sample_libs mixed_store ''/data'' = Inr ?es" by code_simp
  have l0: "0 < length ?es" and l1: "1 < length ?es" by code_simp+
  have f0: "md_files mixed_store (path_join ''/data'' ''daily'') ! 0 = ''2026-01-10'' @ ''.md''"
    and f1: "md_files mixed_store (path_join ''/data'' ''daily'') ! 1 = ''undated'' @ ''.md''"
    by code_simp+
  have s0: "md_only_suffix ''2026-01-10''" and s1: "md_only_suffix ''undated''" by code_simp+
  have c0: "map_of (files mixed_store) (path_join (path_join ''/data'' ''daily'') (''2026-01-10'' @ ''.md''))
      = Some ''h10|<jan12>''"
    and c1: "map_of (files mixed_store) (path_join (path_join ''/data'' ''daily'') (''undated'' @ ''.md''))
      = Some ''h0|<jan11>''"
    by code_simp+
  have m0: "matter sample_libs ''h10|<jan12>'' = Inr (header ''2026-01-10'' 240 False, ''<jan12>'')"
    and m1: "matter sample_libs ''h0|<jan11>'' = Inr (JObj [(''totalCalories'', JNum 0)], ''<jan11>'')"
    by code_simp+
  have d0: "get_prop (header ''2026-01-10'' 240 False) ''date'' = Inr (JStr ''2026-01-10'')"
    and d1: "get_prop (JObj [(''totalCalories'', JNum 0)]) ''date'' = Inr JUndefined"
    by code_simp+
  have t0: "truthy (JStr ''2026-01-10'')" and t1: "\<not> truthy JUndefined" by code_simp+
  have p1: "JSON_parse sample_libs
      (entry_content sample_libs (encryptionPassword mixed_store) ''<jan11>'') = Inr entry_jan11"
    and b1: "get_prop entry_jan11 ''date'' = Inr (JStr ''2026-01-11'')"
    by code_simp+
  have b: "projr (JSON_parse sample_libs ''<jan12>'') = entry_jan12"
    "field entry_jan12 ''id'' = JStr ''other''"
    "field entry_jan12 ''date'' = JStr ''2026-01-12''"
    by code_simp+
  from decoded_record_id_and_date [OF a n r l0 f0 s0 c0 m0 d0] t0
  have first: "field (?es ! 0) ''id'' = JStr ''2026-01-10''"
    "field (?es ! 0) ''date'' = JStr ''2026-01-10''"
    by blast+
  from decoded_record_id_and_date [OF a n r l1 f1 s1 c1 m1 d1] t1 p1 b1
  have second: "field (?es ! 1) ''id'' = JStr ''undated''"
    "field (?es ! 1) ''date'' = JStr ''2026-01-11''"
    by blast+
  from b first second show ?thesis by blast
qed

text \<open>
  The claim as stated fails for the id: the program removes the first occurrence of
  \<^verbatim>\<open>.md\<close> from the file name, not the extension. The file \<^verbatim>\<open>a.mdb.md\<close>, whose stem is
  \<^verbatim>\<open>a.mdb\<close>, is listed with the id \<^verbatim>\<open>ab.md\<close>.
\<close>

theorem id_is_not_always_the_stem_counterexample:
  "md_files odd_store ''/data/daily'' = [''a.mdb'' @ ''.md'']
   \<and> map (\<lambda>e. field e ''id'') (fst (get_daily_entries sample_libs odd_store None None))
       = [JStr ''ab.md'']"
  by code_simp

section \<open>Validation names every violated field\<close>






























section \<open>The CSV export\<close>

























end
